theory Spec2Isabelle
  imports Complex_Main
begin

section \<open>Shared vocabulary\<close>

text \<open>
  Instants and durations are numbers of seconds. Python's \<open>datetime\<close> and \<open>timedelta\<close>
  compare exactly on a microsecond grid, and \<open>time.time()\<close> is a float; both are read here
  as real numbers, which keeps every comparison of the source exact.
\<close>

type_synonym instant = real

text \<open>
  An exception of the source. \<open>NoSuchProcess\<close> is \<open>psutil.NoSuchProcess\<close>,
  \<open>TimeoutExpired\<close> is \<open>subprocess.TimeoutExpired\<close>, and \<open>Exception s\<close> is any other
  subclass of \<open>Exception\<close> whose \<open>str(e)\<close> is \<open>s\<close>. Asynchronous interrupts
  (\<open>KeyboardInterrupt\<close>) are not part of the model.
\<close>

datatype exn = NoSuchProcess string | TimeoutExpired string | Exception string

fun exn_str :: "exn \<Rightarrow> string" where
  "exn_str (NoSuchProcess s) = s"
| "exn_str (TimeoutExpired s) = s"
| "exn_str (Exception s) = s"

datatype 'a outcome = Returned 'a | Raised exn

text \<open>A text between single quotes, as Python's messages quote a name.\<close>

definition quoted :: "string \<Rightarrow> string" where
  "quoted s = CHR 0x27 # s @ [CHR 0x27]"

text \<open>
  An f-string, kept as its pieces: literal text and formatted fields. \<open>Fixed n x\<close> is the
  field \<open>{x:.nf}\<close>, \<open>Str x\<close> is \<open>{x}\<close> for a number and \<open>StrInt i\<close> is \<open>{i}\<close> for an
  integer. The digits a float prints as are not computed.
\<close>

datatype frag = Lit string | Fixed nat real | Str real | StrInt int

type_synonym fstring = "frag list"

section \<open>The resource guardian (resource_guardian.py)\<close>

datatype level = INFO | WARNING | ERROR

text \<open>
  What the guardian does to the outside world, in the order it does it: a log entry
  (\<open>log\<close>, here \<open>log_msg\<close>; the timestamp prefix is left out, and a failed write to the log file is
  swallowed by the source), a \<open>subprocess.run\<close> with its argument vector, a
  \<open>psutil.Process(pid)\<close> sample, a system-wide sample, the opening of
  \<open>/proc/sys/vm/drop_caches\<close>, and \<open>time.sleep\<close>.
\<close>

datatype event =
    Log level fstring
  | Run "string list"
  | SampleProcess int
  | SampleSystem
  | OpenDropCaches
  | Sleep real

text \<open>
  The fields of \<open>ResourceGuardian\<close>. The three settings the source reads from
  \<open>self.config\<close> on every use (\<open>enable_auto_restart\<close>, \<open>max_restarts_per_hour\<close>,
  \<open>enable_memory_cleanup\<close>) are fields here too. \<open>events\<close> records the effects so far.
\<close>

record guardian =
  enable_auto_restart :: bool
  max_restarts_per_hour :: real
  enable_memory_cleanup :: bool
  service_name :: string
  memory_limit_mb :: real
  cpu_limit_percent :: real
  check_interval :: real
  restart_cooldown :: real
  last_restart :: "instant option"
  restart_count :: int
  events :: "event list"

record process_stats =
  memory_mb :: real
  memory_percent :: real
  cpu_percent :: real
  num_threads :: int
  status :: string

record system_stats =
  memory_total_mb :: real
  memory_available_mb :: real
  sys_memory_percent :: real
  sys_cpu_percent :: real
  disk_free_gb :: real
  disk_percent :: real

record completed_process =
  returncode :: int
  stdout :: string
  stderr :: string

definition log_msg :: "level \<Rightarrow> fstring \<Rightarrow> guardian \<Rightarrow> guardian" where
  "log_msg lvl message g = g\<lparr>events := events g @ [Log lvl message]\<rparr>"

definition emit :: "event \<Rightarrow> guardian \<Rightarrow> guardian" where
  "emit ev g = g\<lparr>events := events g @ [ev]\<rparr>"

text \<open>
  \<open>should_restart_service\<close>. \<open>now\<close> is what \<open>datetime.now()\<close> returns in the cooldown
  check. The cooldown branch returns from inside the nested \<open>if\<close>; \<open>None\<close> of the inner
  \<open>case\<close> is falling through to the checks below it.
\<close>

definition should_restart_service ::
  "guardian \<Rightarrow> instant \<Rightarrow> process_stats \<Rightarrow> bool \<times> fstring" where
  "should_restart_service g now ps =
     (if \<not> enable_auto_restart g then (False, [Lit ''Auto-restart disabled''])
      else
        (case (case last_restart g of
                 None \<Rightarrow> None
               | Some t \<Rightarrow>
                   (let time_since_restart = now - t in
                    if time_since_restart < restart_cooldown g
                    then Some (False,
                           [Lit ''Restart cooldown active ('',
                            Fixed 0 (restart_cooldown g - time_since_restart),
                            Lit ''s remaining)''])
                    else None)) of
           Some decision \<Rightarrow> decision
         | None \<Rightarrow>
             if real_of_int (restart_count g) \<ge> max_restarts_per_hour g
             then (False, [Lit ''Maximum restarts per hour reached''])
             else if memory_mb ps > memory_limit_mb g
             then (True,
                    [Lit ''Memory usage ('', Fixed 1 (memory_mb ps),
                     Lit ''MB) exceeds limit ('', Str (memory_limit_mb g), Lit ''MB)''])
             else if cpu_percent ps > cpu_limit_percent g
             then (True,
                    [Lit ''CPU usage ('', Fixed 1 (cpu_percent ps),
                     Lit ''%) exceeds limit ('', Str (cpu_limit_percent g), Lit ''%)''])
             else (False, [Lit ''All metrics within limits''])))"

text \<open>
  \<open>restart_service\<close>. \<open>run\<close> is what \<open>subprocess.run(['systemctl', 'restart', ...])\<close>
  does: it returns a completed process or raises. \<open>now\<close> is \<open>datetime.now()\<close> on the
  success branch.
\<close>

definition restart_service ::
  "completed_process outcome \<Rightarrow> instant \<Rightarrow> fstring \<Rightarrow> guardian \<Rightarrow> bool \<times> guardian" where
  "restart_service run now reason g =
     (let g1 = log_msg WARNING (Lit ''Restarting service: '' # reason) g;
          g2 = emit (Run [''systemctl'', ''restart'', service_name g1]) g1
      in case run of
           Returned result \<Rightarrow>
             if returncode result = 0
             then (let g3 = g2\<lparr>last_restart := Some now\<rparr>;
                       g4 = g3\<lparr>restart_count := restart_count g3 + 1\<rparr>
                   in (True, log_msg INFO [Lit ''Service restarted successfully''] g4))
             else (False, log_msg ERROR [Lit ''Service restart failed: '', Lit (stderr result)] g2)
         | Raised e \<Rightarrow>
             (False, log_msg ERROR [Lit ''Error restarting service: '', Lit (exn_str e)] g2))"

text \<open>
  \<open>get_service_pid\<close>. \<open>query\<close> is what
  \<open>int(subprocess.run(['systemctl', 'show', ...]).stdout.strip())\<close> does: it returns the
  integer or raises (the command times out, the output is not a number). The bare
  \<open>except\<close> turns every exception into \<open>None\<close>.
\<close>

definition get_service_pid :: "int outcome \<Rightarrow> guardian \<Rightarrow> int option \<times> guardian" where
  "get_service_pid query g =
     (let g1 = emit (Run [''systemctl'', ''show'', ''--property'', ''MainPID'', ''--value'',
                          service_name g]) g
      in case query of
           Returned pid \<Rightarrow> (if pid > 0 then Some pid else None, g1)
         | Raised e \<Rightarrow> (None, g1))"

text \<open>
  \<open>get_process_stats\<close> and \<open>get_system_stats\<close>. \<open>query\<close> is what the psutil calls of
  the \<open>try\<close> body do together.
\<close>

definition get_process_stats ::
  "process_stats outcome \<Rightarrow> int \<Rightarrow> guardian \<Rightarrow> process_stats option \<times> guardian" where
  "get_process_stats query pid g =
     (let g1 = emit (SampleProcess pid) g
      in case query of
           Returned ps \<Rightarrow> (Some ps, g1)
         | Raised (NoSuchProcess s) \<Rightarrow> (None, g1)
         | Raised e \<Rightarrow>
             (None, log_msg ERROR [Lit ''Error getting process stats: '', Lit (exn_str e)] g1))"

definition get_system_stats ::
  "system_stats outcome \<Rightarrow> guardian \<Rightarrow> system_stats option \<times> guardian" where
  "get_system_stats query g =
     (let g1 = emit SampleSystem g
      in case query of
           Returned ss \<Rightarrow> (Some ss, g1)
         | Raised e \<Rightarrow>
             (None, log_msg ERROR [Lit ''Error getting system stats: '', Lit (exn_str e)] g1))"

text \<open>
  \<open>cleanup_memory\<close>. \<open>sync_run\<close> is \<open>subprocess.run(['sync'])\<close>, \<open>open_caches\<close> is
  \<open>open('/proc/sys/vm/drop_caches', 'w')\<close> and \<open>echo_run\<close> is
  \<open>subprocess.run(['echo', '3'], stdout=...)\<close>; each returns or raises.
\<close>

definition cleanup_memory ::
  "unit outcome \<Rightarrow> unit outcome \<Rightarrow> unit outcome \<Rightarrow> guardian \<Rightarrow> guardian" where
  "cleanup_memory sync_run open_caches echo_run g =
     (if \<not> enable_memory_cleanup g then g
      else
        (let failed = (\<lambda>e h. log_msg ERROR [Lit ''Memory cleanup failed: '', Lit (exn_str e)] h);
             g1 = emit (Run [''sync'']) g
         in case sync_run of
              Raised e \<Rightarrow> failed e g1
            | Returned _ \<Rightarrow>
                (let g2 = emit OpenDropCaches g1
                 in case open_caches of
                      Raised e \<Rightarrow> failed e g2
                    | Returned _ \<Rightarrow>
                        (let g3 = emit (Run [''echo'', ''3'']) g2
                         in case echo_run of
                              Raised e \<Rightarrow> failed e g3
                            | Returned _ \<Rightarrow>
                                log_msg INFO [Lit ''Memory cleanup performed''] g3))))"

text \<open>
  Everything one tick reads from outside the guardian: the clock at each
  \<open>datetime.now()\<close> of the source, and what each command and each sample does.
\<close>

record tick_env =
  clock_check :: instant
  clock_stamp :: instant
  pid_query :: "int outcome"
  start_run :: "unit outcome"
  process_query :: "process_stats outcome"
  system_query :: "system_stats outcome"
  clock_decide :: instant
  restart_run :: "completed_process outcome"
  clock_restart :: instant
  sync_run :: "unit outcome"
  open_caches :: "unit outcome"
  echo_run :: "unit outcome"

text \<open>
  \<open>check_service_health\<close>. The first component is \<open>Returned ()\<close> when the method returns
  and \<open>Raised e\<close> when \<open>e\<close> leaves it; the guardian is returned either way, with what
  was done before the exception. The source's text for the statistics line does not
  compile (see \<open>stats_line_source\<close> below), so it fixes no behaviour for that statement.
  The model takes what the statement does as the parameter \<open>stats_line\<close>: from the
  process and system statistics it either gives the message that is logged or raises.
  Nothing else of the method depends on it.
\<close>

type_synonym stats_line = "process_stats \<Rightarrow> system_stats option \<Rightarrow> fstring outcome"

definition check_service_health ::
  "stats_line \<Rightarrow> tick_env \<Rightarrow> guardian \<Rightarrow> unit outcome \<times> guardian" where
  "check_service_health stats_line env g =
     (case get_service_pid (pid_query env) g of
        (None, g1) \<Rightarrow>
          (let g2 = log_msg WARNING [Lit ''Service not running, attempting to start''] g1;
               g3 = emit (Run [''systemctl'', ''start'', service_name g2]) g2
           in case start_run env of
                Returned _ \<Rightarrow> (Returned (), log_msg INFO [Lit ''Service start attempted''] g3)
              | Raised e \<Rightarrow>
                  (Returned (), log_msg ERROR [Lit ''Failed to start service: '', Lit (exn_str e)] g3))
      | (Some pid, g1) \<Rightarrow>
          (case get_process_stats (process_query env) pid g1 of
             (None, g2) \<Rightarrow>
               (Returned (), log_msg ERROR [Lit ''Could not get process statistics''] g2)
           | (Some ps, g2) \<Rightarrow>
               (case get_system_stats (system_query env) g2 of
                  (system_stats, g3) \<Rightarrow>
                    (case stats_line ps system_stats of
                       Raised e \<Rightarrow> (Raised e, g3)
                     | Returned message \<Rightarrow>
                         (let g4 = log_msg INFO message g3;
                              (should_restart, reason) =
                                 should_restart_service g4 (clock_decide env) ps;
                              g5 = (if should_restart
                                    then snd (restart_service (restart_run env)
                                                (clock_restart env) reason g4)
                                    else g4)
                          in case system_stats of
                               None \<Rightarrow> (Returned (), g5)
                             | Some ss \<Rightarrow>
                                 if sys_memory_percent ss > 85
                                 then (Returned (),
                                       cleanup_memory (sync_run env) (open_caches env)
                                         (echo_run env) g5)
                                 else (Returned (), g5))))))"

definition reset_restart_counter :: "guardian \<Rightarrow> guardian" where
  "reset_restart_counter g = log_msg INFO [Lit ''Restart counter reset''] (g\<lparr>restart_count := 0\<rparr>)"

text \<open>
  One iteration of the \<open>while True\<close> loop of \<open>run_daemon\<close>; the state of the loop is the
  guardian and the local \<open>last_counter_reset\<close>. \<open>timedelta(hours=1)\<close> is 3600 seconds.
\<close>

definition daemon_tick ::
  "stats_line \<Rightarrow> tick_env \<Rightarrow> guardian \<times> instant \<Rightarrow> unit outcome \<times> guardian \<times> instant" where
  "daemon_tick stats_line env s =
     (case s of (g, last_counter_reset) \<Rightarrow>
        (let (g1, last_counter_reset1) =
               (if clock_check env - last_counter_reset > 3600
                then (reset_restart_counter g, clock_stamp env)
                else (g, last_counter_reset))
         in case check_service_health stats_line env g1 of
              (Raised e, g2) \<Rightarrow> (Raised e, g2, last_counter_reset1)
            | (Returned _, g2) \<Rightarrow>
                (Returned (), emit (Sleep (check_interval g2)) g2, last_counter_reset1)))"

text \<open>
  The loop of \<open>run_daemon\<close> on the ticks the list describes. \<open>Some 1\<close> is
  \<open>sys.exit(1)\<close> from the handler of the loop; \<open>None\<close> is a loop still running when the
  list ends.
\<close>

fun daemon_loop ::
  "stats_line \<Rightarrow> tick_env list \<Rightarrow> guardian \<times> instant \<Rightarrow> int option \<times> guardian" where
  "daemon_loop stats_line [] s = (None, fst s)"
| "daemon_loop stats_line (env # envs) s =
     (case daemon_tick stats_line env s of
        (Raised e, g, last_counter_reset) \<Rightarrow>
          (Some 1, log_msg ERROR [Lit ''Resource Guardian error: '', Lit (exn_str e)] g)
      | (Returned _, g, last_counter_reset) \<Rightarrow>
          daemon_loop stats_line envs (g, last_counter_reset))"

definition run_daemon ::
  "stats_line \<Rightarrow> instant \<Rightarrow> tick_env list \<Rightarrow> guardian \<Rightarrow> int option \<times> guardian" where
  "run_daemon stats_line started envs g =
     (let g1 = log_msg INFO [Lit ''Resource Guardian started for service: '', Lit (service_name g)] g;
          g2 = log_msg INFO [Lit ''Memory limit: '', Str (memory_limit_mb g1), Lit ''MB, CPU limit: '',
                             Str (cpu_limit_percent g1), Lit ''%''] g1
      in daemon_loop stats_line envs (g2, started))"

subsection \<open>The statistics line and the compiler\<close>

text \<open>
  CPython compiles a module whole before it runs any of it, and compiling an f-string
  scans its text into literal pieces and replacement fields. \<open>scan_fstring\<close> is that
  scan, as far as braces go: in literal text a doubled brace is one brace, an opening
  brace starts a field and a closing brace alone is a \<open>SyntaxError\<close>; a field runs to
  the closing brace at its own level, outside the quotes and brackets of its expression,
  and a colon at that level starts its format specification. The pieces keep the text
  of each field as written.
\<close>

datatype scan_mode = InText | InExpr nat "char option" | InSpec nat

datatype fpiece = Literal string | Field string

definition single_brace :: exn where
  "single_brace = Exception (''f-string: single '' @ quoted ''}'' @ '' is not allowed'')"

definition expecting_brace :: exn where
  "expecting_brace = Exception (''f-string: expecting '' @ quoted ''}'')"

definition add_piece :: "fpiece \<Rightarrow> exn + fpiece list \<Rightarrow> exn + fpiece list" where
  "add_piece p scanned = (case scanned of Inl e \<Rightarrow> Inl e | Inr ps \<Rightarrow> Inr (p # ps))"

fun scan_fstring :: "scan_mode \<Rightarrow> string \<Rightarrow> string \<Rightarrow> exn + fpiece list" where
  "scan_fstring InText acc [] = Inr [Literal acc]"
| "scan_fstring InText acc (c # cs) =
     (if c = CHR ''{''
      then (case cs of
              [] \<Rightarrow> add_piece (Literal acc) (scan_fstring (InExpr 0 None) [] cs)
            | d # ds \<Rightarrow>
                if d = CHR ''{'' then scan_fstring InText (acc @ [c]) ds
                else add_piece (Literal acc) (scan_fstring (InExpr 0 None) [] cs))
      else if c = CHR ''}''
      then (case cs of
              [] \<Rightarrow> Inl single_brace
            | d # ds \<Rightarrow>
                if d = CHR ''}'' then scan_fstring InText (acc @ [c]) ds
                else Inl single_brace)
      else scan_fstring InText (acc @ [c]) cs)"
| "scan_fstring (InExpr depth quote) acc [] = Inl expecting_brace"
| "scan_fstring (InExpr depth quote) acc (c # cs) =
     (case quote of
        Some q \<Rightarrow> scan_fstring (InExpr depth (if c = q then None else Some q)) (acc @ [c]) cs
      | None \<Rightarrow>
          if c = CHR 0x27 \<or> c = CHR 0x22
          then scan_fstring (InExpr depth (Some c)) (acc @ [c]) cs
          else if c = CHR ''('' \<or> c = CHR ''['' \<or> c = CHR ''{''
          then scan_fstring (InExpr (Suc depth) None) (acc @ [c]) cs
          else if c = CHR '')'' \<or> c = CHR '']''
          then scan_fstring (InExpr (depth - 1) None) (acc @ [c]) cs
          else if c = CHR ''}''
          then (if depth = 0 then add_piece (Field acc) (scan_fstring InText [] cs)
                else scan_fstring (InExpr (depth - 1) None) (acc @ [c]) cs)
          else if c = CHR '':'' \<and> depth = 0
          then scan_fstring (InSpec 0) (acc @ [c]) cs
          else scan_fstring (InExpr depth None) (acc @ [c]) cs)"
| "scan_fstring (InSpec depth) acc [] = Inl expecting_brace"
| "scan_fstring (InSpec depth) acc (c # cs) =
     (if c = CHR ''{'' then scan_fstring (InSpec (Suc depth)) (acc @ [c]) cs
      else if c = CHR ''}''
      then (if depth = 0 then add_piece (Field acc) (scan_fstring InText [] cs)
            else scan_fstring (InSpec (depth - 1)) (acc @ [c]) cs)
      else scan_fstring (InSpec depth) (acc @ [c]) cs)"

text \<open>
  The five f-strings of the statistics line of \<open>check_service_health\<close>, lines 200 to
  204 of the source, as they are written between their quotes.
\<close>

definition stats_line_source :: "string list" where
  "stats_line_source =
     [''Stats - Memory: {process_stats['memory_mb']:.1f}MB '',
      ''({process_stats['memory_percent']:.1f}%), '',
      ''CPU: {process_stats['cpu_percent']:.1f}%, '',
      ''Threads: {process_stats['num_threads']}, '',
      ''System Memory: {system_stats['memory_percent']:.1f}% if system_stats else 'N/A'}'']"

text \<open>
  Compiling a list of f-strings: the first that does not scan raises, and then nothing
  of the module runs.
\<close>

fun compile_fstrings :: "string list \<Rightarrow> unit outcome" where
  "compile_fstrings [] = Returned ()"
| "compile_fstrings (text # texts) =
     (case scan_fstring InText [] text of
        Inl e \<Rightarrow> Raised e
      | Inr pieces \<Rightarrow> compile_fstrings texts)"

text \<open>
  The guardian \<open>__init__\<close> builds when the configuration is the default one of
  \<open>load_config\<close>: no restart yet, counter at zero.
\<close>

definition default_guardian :: guardian where
  "default_guardian =
     \<lparr>enable_auto_restart = True, max_restarts_per_hour = 3, enable_memory_cleanup = True,
      service_name = ''frp-web-lite'', memory_limit_mb = 400, cpu_limit_percent = 80,
      check_interval = 30, restart_cooldown = 300, last_restart = None, restart_count = 0,
      events = []\<rparr>"

definition stats_of :: "real \<Rightarrow> real \<Rightarrow> process_stats" where
  "stats_of mem cpu =
     \<lparr>memory_mb = mem, memory_percent = 10, cpu_percent = cpu, num_threads = 4,
      status = ''running''\<rparr>"

subsection \<open>Loading the configuration\<close>

text \<open>
  What \<open>json.load\<close> returns. The pairs of a \<open>JObject\<close> are the items of the dict in
  their order; their keys are distinct, as \<open>json.load\<close> builds a dict.
\<close>

datatype json =
    JNull
  | JBool bool
  | JInt int
  | JFloat real
  | JString string
  | JArray "json list"
  | JObject "(string \<times> json) list"

text \<open>
  The configuration dict, as its entries under string keys. \<open>dict.update\<close> with a list
  of pairs can also add keys that are numbers, booleans or \<open>None\<close>; the guardian never
  looks such a key up, and the model does not keep them.
\<close>

type_synonym config = "string \<rightharpoonup> json"

definition default_config :: config where
  "default_config =
     [''service_name'' \<mapsto> JString ''frp-web-lite'',
      ''memory_limit_mb'' \<mapsto> JInt 400,
      ''cpu_limit_percent'' \<mapsto> JInt 80,
      ''check_interval'' \<mapsto> JInt 30,
      ''restart_cooldown'' \<mapsto> JInt 300,
      ''max_restarts_per_hour'' \<mapsto> JInt 3,
      ''enable_auto_restart'' \<mapsto> JBool True,
      ''enable_memory_cleanup'' \<mapsto> JBool True]"

fun digit_char :: "nat \<Rightarrow> char" where
  "digit_char n = char_of (48 + n)"

fun str_nat :: "nat \<Rightarrow> string" where
  "str_nat n = (if n < 10 then [digit_char n] else str_nat (n div 10) @ [digit_char (n mod 10)])"

text \<open>\<open>dict.update\<close> with a dict: every item is stored, a later one over an earlier one.\<close>

fun update_items :: "(string \<times> json) list \<Rightarrow> config \<Rightarrow> config" where
  "update_items [] d = d"
| "update_items ((k, v) # kvs) d = update_items kvs (d(k \<mapsto> v))"

text \<open>
  \<open>dict.update\<close> with a sequence takes each element as a key and a value: an element
  must be iterable and yield exactly two items, and the first must be hashable. A string
  of two characters yields its characters, a dict of two items its two keys. \<open>i\<close> is the
  position of the element, for the message. Strings are counted in characters; the
  messages are CPython's.
\<close>

definition not_a_pair :: "nat \<Rightarrow> nat \<Rightarrow> exn" where
  "not_a_pair i n =
     Exception (''dictionary update sequence element #'' @ str_nat i @ '' has length ''
                @ str_nat n @ ''; 2 is required'')"

fun update_pair :: "nat \<Rightarrow> json \<Rightarrow> config \<Rightarrow> exn + config" where
  "update_pair i (JArray [k, v]) d =
     (case k of
        JString s \<Rightarrow> Inr (d(s \<mapsto> v))
      | JArray _ \<Rightarrow> Inl (Exception (''unhashable type: '' @ quoted ''list''))
      | JObject _ \<Rightarrow> Inl (Exception (''unhashable type: '' @ quoted ''dict''))
      | _ \<Rightarrow> Inr d)"
| "update_pair i (JArray xs) d = Inl (not_a_pair i (length xs))"
| "update_pair i (JString [a, b]) d = Inr (d([a] \<mapsto> JString [b]))"
| "update_pair i (JString s) d = Inl (not_a_pair i (length s))"
| "update_pair i (JObject [(k1, v1), (k2, v2)]) d = Inr (d(k1 \<mapsto> JString k2))"
| "update_pair i (JObject kvs) d = Inl (not_a_pair i (length kvs))"
| "update_pair i _ d =
     Inl (Exception (''cannot convert dictionary update sequence element #'' @ str_nat i
                     @ '' to a sequence''))"

text \<open>
  The elements are stored one by one: when one of them raises, the ones before it are
  already in the dict.
\<close>

fun update_seq :: "nat \<Rightarrow> json list \<Rightarrow> config \<Rightarrow> exn option \<times> config" where
  "update_seq i [] d = (None, d)"
| "update_seq i (x # xs) d =
     (case update_pair i x d of
        Inl e \<Rightarrow> (Some e, d)
      | Inr d' \<Rightarrow> update_seq (Suc i) xs d')"

definition not_iterable :: "string \<Rightarrow> exn" where
  "not_iterable ty = Exception (quoted ty @ '' object is not iterable'')"

text \<open>
  \<open>default_config.update(user_config)\<close>: the exception it raises, if any, and the dict
  as it is afterwards.
\<close>

fun dict_update :: "json \<Rightarrow> config \<Rightarrow> exn option \<times> config" where
  "dict_update (JObject kvs) d = (None, update_items kvs d)"
| "dict_update (JArray xs) d = update_seq 0 xs d"
| "dict_update (JString s) d = (if s = [] then (None, d) else (Some (not_a_pair 0 1), d))"
| "dict_update JNull d = (Some (not_iterable ''NoneType''), d)"
| "dict_update (JBool b) d = (Some (not_iterable ''bool''), d)"
| "dict_update (JInt n) d = (Some (not_iterable ''int''), d)"
| "dict_update (JFloat x) d = (Some (not_iterable ''float''), d)"

text \<open>
  What the configuration file is when \<open>load_config\<close> runs: absent
  (\<open>os.path.exists\<close> is false), present with \<open>open\<close> raising, present with
  \<open>json.load\<close> raising, or present and parsed.
\<close>

datatype config_file = Missing | OpenRaises exn | ParseRaises exn | Parsed json

text \<open>
  \<open>load_config\<close>, with the entries it logs. The \<open>try\<close> body is \<open>load_config_body\<close>:
  the exception that leaves it, if any, and \<open>default_config\<close> as the body left it.
\<close>

definition load_config_body :: "config_file \<Rightarrow> exn option \<times> config" where
  "load_config_body config_file =
     (case config_file of
        Missing \<Rightarrow> (None, default_config)
      | OpenRaises e \<Rightarrow> (Some e, default_config)
      | ParseRaises e \<Rightarrow> (Some e, default_config)
      | Parsed user_config \<Rightarrow> dict_update user_config default_config)"

definition load_config :: "config_file \<Rightarrow> (config \<times> event list) outcome" where
  "load_config config_file =
     (case load_config_body config_file of
        (None, d) \<Rightarrow> Returned (d, [])
      | (Some e, d) \<Rightarrow>
          Returned (d, [Log INFO [Lit ''Error loading config: '', Lit (exn_str e),
                                  Lit '', using defaults'']]))"

section \<open>The caching decorator (performance_monitor.py)\<close>

text \<open>
  The dict \<open>cache\<close> of \<open>lightweight_cache\<close>: its items in insertion order, each key with
  its result and the time it was stored. \<open>maxsize\<close> is a size, a natural number.
\<close>

type_synonym ('k, 'v) lw_cache = "('k \<times> 'v \<times> real) list"

definition del_key :: "'k \<Rightarrow> ('k, 'v) lw_cache \<Rightarrow> ('k, 'v) lw_cache" where
  "del_key key cache = filter (\<lambda>entry. fst entry \<noteq> key) cache"

text \<open>
  \<open>sorted(cache.keys(), key=lambda k: cache[k][1])\<close>: the keys by the time stored, oldest
  first. \<open>sorted\<close> is stable and so is \<open>sort_key\<close>: keys stored at the same time stay in
  insertion order.
\<close>

definition keys_by_age :: "('k, 'v) lw_cache \<Rightarrow> 'k list" where
  "keys_by_age cache = map fst (sort_key (\<lambda>entry. snd (snd entry)) cache)"

text \<open>
  \<open>wrapper\<close>. \<open>key\<close> is the string built from the arguments, \<open>current_time\<close> is
  \<open>time.time()\<close>, and \<open>computed\<close> is what \<open>func(*args, **kwargs)\<close> does if it is
  called. The first \<open>case\<close> is the lookup: a fresh entry is returned at once, an expired
  one is deleted.
\<close>

definition wrapper ::
  "nat \<Rightarrow> real \<Rightarrow> ('k, 'v) lw_cache \<Rightarrow> 'k \<Rightarrow> real \<Rightarrow> 'v outcome
     \<Rightarrow> 'v outcome \<times> ('k, 'v) lw_cache" where
  "wrapper maxsize ttl cache key current_time computed =
     (case (case map_of cache key of
              Some (result, timestamp) \<Rightarrow>
                if current_time - timestamp < ttl then (Some result, cache)
                else (None, del_key key cache)
            | None \<Rightarrow> (None, cache)) of
        (Some result, cache1) \<Rightarrow> (Returned result, cache1)
      | (None, cache1) \<Rightarrow>
          (case computed of
             Raised e \<Rightarrow> (Raised e, cache1)
           | Returned result \<Rightarrow>
               (let cache2 = cache1 @ [(key, result, current_time)]
                in if length cache2 > maxsize
                   then (let oldest_keys = take (length cache2 - maxsize + 1) (keys_by_age cache2)
                         in (Returned result, fold del_key oldest_keys cache2))
                   else (Returned result, cache2))))"

definition cache_clear :: "('k, 'v) lw_cache \<Rightarrow> ('k, 'v) lw_cache" where
  "cache_clear cache = []"

text \<open>
  A sequence of calls of the wrapped function, each given by its key, its time and
  what the function does; the cache after the last one.
\<close>

fun run_calls ::
  "nat \<Rightarrow> real \<Rightarrow> ('k \<times> real \<times> 'v outcome) list \<Rightarrow> ('k, 'v) lw_cache \<Rightarrow> ('k, 'v) lw_cache" where
  "run_calls maxsize ttl [] cache = cache"
| "run_calls maxsize ttl ((key, current_time, computed) # calls) cache =
     run_calls maxsize ttl calls (snd (wrapper maxsize ttl cache key current_time computed))"

text \<open>
  Eviction as the words "the entries with the oldest cached timestamps are evicted until
  the bound holds" describe it, to compare with what \<open>wrapper\<close> does: as many of the
  oldest entries as the cache has beyond \<open>maxsize\<close>.
\<close>

definition evict_until_bound :: "nat \<Rightarrow> ('k, 'v) lw_cache \<Rightarrow> ('k, 'v) lw_cache" where
  "evict_until_bound maxsize cache =
     fold del_key (take (length cache - maxsize) (keys_by_age cache)) cache"

section \<open>The control panel's command helpers (app.py)\<close>

text \<open>
  \<open>str.isspace\<close> on one character, \<open>str.strip()\<close> and \<open>str.split()\<close> with no
  argument. A character of the model is a code point below 256; of these Python takes
  for whitespace tab to carriage return, the four separators \<open>0x1C\<close> to \<open>0x1F\<close>, the
  space, the next-line character \<open>0x85\<close> and the no-break space \<open>0xA0\<close>.
\<close>

definition isspace :: "char \<Rightarrow> bool" where
  "isspace c =
     (c \<in> set [CHR 0x09, CHR 0x0A, CHR 0x0B, CHR 0x0C, CHR 0x0D,
               CHR 0x1C, CHR 0x1D, CHR 0x1E, CHR 0x1F, CHR 0x20, CHR 0x85, CHR 0xA0])"

definition str_strip :: "string \<Rightarrow> string" where
  "str_strip s = rev (dropWhile isspace (rev (dropWhile isspace s)))"

fun split_from :: "string \<Rightarrow> string \<Rightarrow> string list" where
  "split_from word [] = (if word = [] then [] else [word])"
| "split_from word (c # cs) =
     (if isspace c
      then (if word = [] then split_from [] cs else word # split_from [] cs)
      else split_from (word @ [c]) cs)"

definition str_split :: "string \<Rightarrow> string list" where
  "str_split s = split_from [] s"

text \<open>
  The dict \<open>execute_command_internal\<close> returns has the keys \<open>returncode\<close>, \<open>stdout\<close>
  and \<open>stderr\<close> of a completed process, and \<open>success\<close>.
\<close>

record command_result = completed_process +
  success :: bool

text \<open>
  \<open>execute_command_internal\<close>. \<open>run cmd\<close> is what
  \<open>subprocess.run(cmd, capture_output=True, text=True, timeout=15)\<close> does. The result
  is an outcome, so that the function returning is a statement about it.
\<close>

definition execute_command_internal ::
  "(string list \<Rightarrow> completed_process outcome) \<Rightarrow> string \<Rightarrow> bool \<Rightarrow> command_result outcome" where
  "execute_command_internal run command_str use_sudo =
     (let cmd = (if use_sudo then [''sudo''] @ str_split command_str else str_split command_str)
      in case run cmd of
           Returned result \<Rightarrow>
             Returned \<lparr>returncode = returncode result,
                       stdout = str_strip (stdout result),
                       stderr = str_strip (stderr result),
                       success = (returncode result = 0)\<rparr>
         | Raised (TimeoutExpired m) \<Rightarrow>
             Returned \<lparr>returncode = - 1, stdout = [], stderr = ''Timeout'', success = False\<rparr>
         | Raised e \<Rightarrow>
             Returned \<lparr>returncode = - 1, stdout = [], stderr = exn_str e, success = False\<rparr>)"

text \<open>
  \<open>get_cached_command_result\<close> is \<open>execute_command_internal\<close> behind
  \<open>functools.lru_cache(maxsize=32)\<close>. The cache is the list of its entries, the most
  recently used first: a hit moves the entry to the front, a miss that returns stores the
  result and drops what is beyond the 32 most recent, a miss that raises stores nothing.
\<close>

type_synonym lru = "((string \<times> bool) \<times> command_result) list"

definition get_cached_command_result ::
  "(string list \<Rightarrow> completed_process outcome) \<Rightarrow> lru \<Rightarrow> string \<Rightarrow> bool
     \<Rightarrow> command_result outcome \<times> lru" where
  "get_cached_command_result run cache command_str use_sudo =
     (let key = (command_str, use_sudo)
      in case map_of cache key of
           Some result \<Rightarrow> (Returned result, (key, result) # filter (\<lambda>entry. fst entry \<noteq> key) cache)
         | None \<Rightarrow>
             (case execute_command_internal run command_str use_sudo of
                Returned result \<Rightarrow> (Returned result, take 32 ((key, result) # cache))
              | Raised e \<Rightarrow> (Raised e, cache)))"

definition execute_command ::
  "(string list \<Rightarrow> completed_process outcome) \<Rightarrow> lru \<Rightarrow> string \<Rightarrow> bool \<Rightarrow> bool
     \<Rightarrow> command_result outcome \<times> lru" where
  "execute_command run cache command_str use_sudo use_cache =
     (if use_cache then get_cached_command_result run cache command_str use_sudo
      else (execute_command_internal run command_str use_sudo, cache))"

text \<open>
  A cache dict of the module (\<open>_status_cache\<close>, \<open>_logs_cache\<close>). \<open>data\<close> is a Python
  value: \<open>None\<close> is Python's \<open>None\<close>, which the source takes for an empty cache.
\<close>

record 'v cache_dict =
  data :: "'v option"
  timestamp :: real
  ttl :: real

text \<open>
  \<open>get_cached_data\<close>. \<open>now\<close> is \<open>time.time()\<close>, read before the test. The fetch
  function runs in a world \<open>'w\<close> that it may change, so that it can return something
  else on each call; it returns a Python value, \<open>None\<close> included. A fetch function that
  raises is not modelled.
\<close>

definition get_cached_data ::
  "'v cache_dict \<Rightarrow> real \<Rightarrow> ('w \<Rightarrow> 'v option \<times> 'w) \<Rightarrow> 'w \<Rightarrow> 'v option \<times> 'v cache_dict \<times> 'w" where
  "get_cached_data c now fetch_func w =
     (if data c = None \<or> (now - timestamp c) > ttl c
      then (case fetch_func w of
              (fetched, w') \<Rightarrow> (fetched, c\<lparr>data := fetched, timestamp := now\<rparr>, w'))
      else (data c, c, w))"

text \<open>\<open>_status_cache\<close> as the module creates it.\<close>

definition status_cache :: "'v cache_dict" where
  "status_cache = \<lparr>data = None, timestamp = 0, ttl = 5\<rparr>"

text \<open>A fetch function that returns the number of times it has been called before.\<close>

definition counting_fetch :: "nat \<Rightarrow> nat option \<times> nat" where
  "counting_fetch n = (Some n, Suc n)"

section \<open>Concrete inputs\<close>

text \<open>A completed process with the given exit status and error text.\<close>

definition exited :: "int \<Rightarrow> string \<Rightarrow> completed_process" where
  "exited rc err = \<lparr>returncode = rc, stdout = [], stderr = err\<rparr>"

definition system_of :: "real \<Rightarrow> system_stats" where
  "system_of pct =
     \<lparr>memory_total_mb = 512, memory_available_mb = 512 - 512 * pct / 100,
      sys_memory_percent = pct, sys_cpu_percent = 5, disk_free_gb = 10, disk_percent = 50\<rparr>"

text \<open>
  A tick in which everything answers: the service runs as process 4242 with 500 MB and
  90 percent CPU, the system is at 40 percent memory, and every command succeeds. The
  hourly check reads the clock at \<open>check\<close>.
\<close>

definition tick_at :: "instant \<Rightarrow> tick_env" where
  "tick_at check =
     \<lparr>clock_check = check, clock_stamp = check + 1, pid_query = Returned 4242,
      start_run = Returned (), process_query = Returned (stats_of 500 90),
      system_query = Returned (system_of 40), clock_decide = check + 3,
      restart_run = Returned (exited 0 []), clock_restart = check + 4,
      sync_run = Returned (), open_caches = Returned (), echo_run = Returned ()\<rparr>"

text \<open>
  A host on which \<open>sudo systemctl is-active frps\<close> prints \<open>active\<close> and a newline,
  \<open>sudo sleep 60\<close> runs into the timeout, and any other command cannot be started.
\<close>

definition small_host :: "string list \<Rightarrow> completed_process outcome" where
  "small_host cmd =
     (if cmd = [''sudo'', ''systemctl'', ''is-active'', ''frps'']
      then Returned \<lparr>returncode = 0, stdout = ''active'' @ [CHR 0x0A], stderr = []\<rparr>
      else if cmd = [''sudo'', ''sleep'', ''60'']
      then Raised (TimeoutExpired ''timed out after 15 seconds'')
      else Raised (Exception ''No such file or directory''))"

text \<open>
  One behaviour of the statistics line, for concrete ticks: it logs the process's memory
  and raises nothing.
\<close>

definition plain_stats_line :: stats_line where
  "plain_stats_line ps system_stats =
     Returned [Lit ''Stats - Memory: '', Fixed 1 (memory_mb ps), Lit ''MB'']"

text \<open>
  A fetch function that returns \<open>None\<close> on its first call and the number of calls
  before it from then on.
\<close>

definition none_first_fetch :: "nat \<Rightarrow> nat option \<times> nat" where
  "none_first_fetch n = (if n = 0 then None else Some n, Suc n)"


section \<open>The restart decision\<close>

text \<open>
  C1. \<open>should_restart_service\<close> decides by the first rule that matches, in this order:
  (a) auto-restart disabled: no restart; (b) a last restart less than the cooldown ago:
  no restart, and the reason carries the seconds of cooldown that remain; (c) the restart
  count at or above the hourly maximum: no restart; (d) memory above its limit: restart,
  with the memory reason; (e) CPU above its limit: restart, with the CPU reason;
  (f) otherwise no restart, "All metrics within limits". Each rule is stated under the
  failure of the rules before it; rule (b) cannot match while no restart has been made.
  The last conjunct is the tie-break: with memory and CPU both above their limits the
  reason is the memory one, which is not the CPU one.
\<close>

theorem should_restart_service_precedence:
  "(\<not> enable_auto_restart g \<longrightarrow>
      should_restart_service g now ps = (False, [Lit ''Auto-restart disabled'']))
   \<and> (enable_auto_restart g \<and> last_restart g = Some t \<and> now - t < restart_cooldown g \<longrightarrow>
      should_restart_service g now ps =
        (False, [Lit ''Restart cooldown active ('',
                 Fixed 0 (restart_cooldown g - (now - t)), Lit ''s remaining)'']))
   \<and> (enable_auto_restart g
        \<and> (\<forall>u. last_restart g = Some u \<longrightarrow> restart_cooldown g \<le> now - u)
        \<and> max_restarts_per_hour g \<le> real_of_int (restart_count g) \<longrightarrow>
      should_restart_service g now ps = (False, [Lit ''Maximum restarts per hour reached'']))
   \<and> (enable_auto_restart g
        \<and> (\<forall>u. last_restart g = Some u \<longrightarrow> restart_cooldown g \<le> now - u)
        \<and> real_of_int (restart_count g) < max_restarts_per_hour g
        \<and> memory_limit_mb g < memory_mb ps \<longrightarrow>
      should_restart_service g now ps =
        (True, [Lit ''Memory usage ('', Fixed 1 (memory_mb ps),
                Lit ''MB) exceeds limit ('', Str (memory_limit_mb g), Lit ''MB)'']))
   \<and> (enable_auto_restart g
        \<and> (\<forall>u. last_restart g = Some u \<longrightarrow> restart_cooldown g \<le> now - u)
        \<and> real_of_int (restart_count g) < max_restarts_per_hour g
        \<and> memory_mb ps \<le> memory_limit_mb g
        \<and> cpu_limit_percent g < cpu_percent ps \<longrightarrow>
      should_restart_service g now ps =
        (True, [Lit ''CPU usage ('', Fixed 1 (cpu_percent ps),
                Lit ''%) exceeds limit ('', Str (cpu_limit_percent g), Lit ''%)'']))
   \<and> (enable_auto_restart g
        \<and> (\<forall>u. last_restart g = Some u \<longrightarrow> restart_cooldown g \<le> now - u)
        \<and> real_of_int (restart_count g) < max_restarts_per_hour g
        \<and> memory_mb ps \<le> memory_limit_mb g
        \<and> cpu_percent ps \<le> cpu_limit_percent g \<longrightarrow>
      should_restart_service g now ps = (False, [Lit ''All metrics within limits'']))
   \<and> (enable_auto_restart g
        \<and> (\<forall>u. last_restart g = Some u \<longrightarrow> restart_cooldown g \<le> now - u)
        \<and> real_of_int (restart_count g) < max_restarts_per_hour g
        \<and> memory_limit_mb g < memory_mb ps
        \<and> cpu_limit_percent g < cpu_percent ps \<longrightarrow>
      snd (should_restart_service g now ps) =
        [Lit ''Memory usage ('', Fixed 1 (memory_mb ps),
         Lit ''MB) exceeds limit ('', Str (memory_limit_mb g), Lit ''MB)'']
      \<and> snd (should_restart_service g now ps) \<noteq>
        [Lit ''CPU usage ('', Fixed 1 (cpu_percent ps),
         Lit ''%) exceeds limit ('', Str (cpu_limit_percent g), Lit ''%)''])"
  by (cases "last_restart g") (auto simp: should_restart_service_def Let_def)

theorem should_restart_service_precedence_witness:
  "should_restart_service (default_guardian\<lparr>enable_auto_restart := False\<rparr>) 1000 (stats_of 500 90)
     = (False, [Lit ''Auto-restart disabled''])
   \<and> should_restart_service (default_guardian\<lparr>last_restart := Some 900\<rparr>) 1000 (stats_of 500 90)
     = (False, [Lit ''Restart cooldown active ('', Fixed 0 200, Lit ''s remaining)''])
   \<and> should_restart_service (default_guardian\<lparr>last_restart := Some 100, restart_count := 3\<rparr>)
        1000 (stats_of 500 90)
     = (False, [Lit ''Maximum restarts per hour reached''])
   \<and> should_restart_service default_guardian 1000 (stats_of 500 90)
     = (True, [Lit ''Memory usage ('', Fixed 1 500, Lit ''MB) exceeds limit ('', Str 400,
               Lit ''MB)''])
   \<and> should_restart_service default_guardian 1000 (stats_of 50 90)
     = (True, [Lit ''CPU usage ('', Fixed 1 90, Lit ''%) exceeds limit ('', Str 80, Lit ''%)''])
   \<and> should_restart_service default_guardian 1000 (stats_of 50 10)
     = (False, [Lit ''All metrics within limits''])"
  using should_restart_service_precedence
          [of "default_guardian\<lparr>enable_auto_restart := False\<rparr>" 1000 "stats_of 500 90" 0]
        should_restart_service_precedence
          [of "default_guardian\<lparr>last_restart := Some 900\<rparr>" 1000 "stats_of 500 90" 900]
        should_restart_service_precedence
          [of "default_guardian\<lparr>last_restart := Some 100, restart_count := 3\<rparr>" 1000
              "stats_of 500 90" 100]
        should_restart_service_precedence [of default_guardian 1000 "stats_of 500 90" 0]
        should_restart_service_precedence [of default_guardian 1000 "stats_of 50 90" 0]
        should_restart_service_precedence [of default_guardian 1000 "stats_of 50 10" 0]
  by (simp add: default_guardian_def stats_of_def)

section \<open>Restarting the service\<close>

text \<open>
  C2. When the restart command exits with status zero, \<open>restart_service\<close> returns
  \<open>True\<close>, sets \<open>last_restart\<close> to the current time and adds exactly one to
  \<open>restart_count\<close>. When the command exits with another status or raises,
  \<open>restart_service\<close> returns \<open>False\<close> and leaves \<open>last_restart\<close> and \<open>restart_count\<close>
  as they were; nothing of the guardian changes then but the record of its effects.
\<close>

theorem restart_service_state:
  "(\<forall>result. run = Returned result \<and> returncode result = 0 \<longrightarrow>
      fst (restart_service run now reason g) = True
      \<and> last_restart (snd (restart_service run now reason g)) = Some now
      \<and> restart_count (snd (restart_service run now reason g)) = restart_count g + 1)
   \<and> ((\<exists>result. run = Returned result \<and> returncode result \<noteq> 0) \<or> (\<exists>e. run = Raised e) \<longrightarrow>
      fst (restart_service run now reason g) = False
      \<and> last_restart (snd (restart_service run now reason g)) = last_restart g
      \<and> restart_count (snd (restart_service run now reason g)) = restart_count g
      \<and> (snd (restart_service run now reason g))\<lparr>events := events g\<rparr> = g)"
  by (cases run) (auto simp: restart_service_def Let_def log_msg_def emit_def)

theorem restart_service_state_witness:
  "last_restart (snd (restart_service (Returned (exited 0 [])) 1000 [] default_guardian)) = Some 1000
   \<and> restart_count (snd (restart_service (Returned (exited 0 [])) 1000 [] default_guardian)) = 1
   \<and> last_restart (snd (restart_service (Returned (exited 1 ''failed'')) 1000 []
                           (default_guardian\<lparr>last_restart := Some 7, restart_count := 2\<rparr>))) = Some 7
   \<and> restart_count (snd (restart_service (Returned (exited 1 ''failed'')) 1000 []
                           (default_guardian\<lparr>last_restart := Some 7, restart_count := 2\<rparr>))) = 2
   \<and> last_restart (snd (restart_service (Raised (TimeoutExpired ''timed out'')) 1000 []
                           (default_guardian\<lparr>last_restart := Some 7, restart_count := 2\<rparr>))) = Some 7
   \<and> restart_count (snd (restart_service (Raised (TimeoutExpired ''timed out'')) 1000 []
                           (default_guardian\<lparr>last_restart := Some 7, restart_count := 2\<rparr>))) = 2"
  using restart_service_state [of "Returned (exited 0 [])" 1000 "[]" default_guardian]
        restart_service_state [of "Returned (exited 1 ''failed'')" 1000 "[]"
                                  "default_guardian\<lparr>last_restart := Some 7, restart_count := 2\<rparr>"]
        restart_service_state [of "Raised (TimeoutExpired ''timed out'')" 1000 "[]"
                                  "default_guardian\<lparr>last_restart := Some 7, restart_count := 2\<rparr>"]
  by (simp add: default_guardian_def exited_def)

section \<open>One tick of the guardian\<close>

text \<open>Logging and recording an effect touch no field but \<open>events\<close>.\<close>

lemma log_msg_fields [simp]:
  "restart_count (log_msg l m g) = restart_count g"
  "last_restart (log_msg l m g) = last_restart g"
  "service_name (log_msg l m g) = service_name g"
  "check_interval (log_msg l m g) = check_interval g"
  by (simp_all add: log_msg_def)

lemma emit_fields [simp]:
  "restart_count (emit ev g) = restart_count g"
  "last_restart (emit ev g) = last_restart g"
  "service_name (emit ev g) = service_name g"
  "check_interval (emit ev g) = check_interval g"
  by (simp_all add: emit_def)

text \<open>
  C5. When PID resolution returns absent (the query raises, or the main PID is not
  positive), \<open>check_service_health\<close> returns having done exactly this after the
  query: it logs the WARNING, issues \<open>systemctl start\<close>, and logs that the start was
  attempted, or the ERROR if the command raises. There is no sample of the process or of
  the system, no restart command, no "Restarting service" entry and no cleanup in the
  tick, and the guardian is otherwise unchanged.
\<close>

theorem check_service_health_pid_absent:
  "fst (get_service_pid (pid_query env) g) = None \<Longrightarrow>
   check_service_health stats_line env g =
     (Returned (),
      g\<lparr>events := events g @
           [Run [''systemctl'', ''show'', ''--property'', ''MainPID'', ''--value'', service_name g],
            Log WARNING [Lit ''Service not running, attempting to start''],
            Run [''systemctl'', ''start'', service_name g],
            (case start_run env of
               Returned u \<Rightarrow> Log INFO [Lit ''Service start attempted'']
             | Raised e \<Rightarrow> Log ERROR [Lit ''Failed to start service: '', Lit (exn_str e)])]\<rparr>)"
  by (cases "pid_query env"; cases "start_run env")
     (auto simp: check_service_health_def get_service_pid_def log_msg_def emit_def Let_def
           split: if_splits)

theorem check_service_health_pid_absent_witness:
  "check_service_health plain_stats_line ((tick_at 1000)\<lparr>pid_query := Returned 0\<rparr>) default_guardian =
     (Returned (),
      default_guardian\<lparr>events :=
           [Run [''systemctl'', ''show'', ''--property'', ''MainPID'', ''--value'', ''frp-web-lite''],
            Log WARNING [Lit ''Service not running, attempting to start''],
            Run [''systemctl'', ''start'', ''frp-web-lite''],
            Log INFO [Lit ''Service start attempted'']]\<rparr>)"
  using check_service_health_pid_absent
          [where env = "(tick_at 1000)\<lparr>pid_query := Returned 0\<rparr>" and g = default_guardian
             and stats_line = plain_stats_line]
  by (simp add: get_service_pid_def tick_at_def default_guardian_def emit_def)

text \<open>
  C4. The source's text for the statistics line is not an f-string CPython accepts.
  Its first four pieces scan, the fourth into the text \<open>Threads: \<close>, the field
  \<open>process_stats['num_threads']\<close> and a comma. The fifth closes its field before the
  conditional that was to give \<open>N/A\<close> for a missing snapshot, and the closing brace
  after the conditional stands alone: compiling the module raises the \<open>SyntaxError\<close>, so
  that no tick of \<open>check_service_health\<close> runs, with or without a system snapshot.
\<close>

theorem stats_line_does_not_compile:
  "scan_fstring InText [] (stats_line_source ! 3) =
     Inr [Literal ''Threads: '', Field ''process_stats['num_threads']'', Literal '', '']
   \<and> compile_fstrings (take 4 stats_line_source) = Returned ()
   \<and> scan_fstring InText [] (stats_line_source ! 4) = Inl single_brace
   \<and> compile_fstrings stats_line_source = Raised single_brace"
  by (simp add: stats_line_source_def add_piece_def)

section \<open>The restart counter\<close>

lemma restart_service_count:
  "restart_count (snd (restart_service run now reason g)) =
     restart_count g + (if fst (restart_service run now reason g) then 1 else 0)"
  by (cases run) (simp_all add: restart_service_def Let_def)

lemma get_service_pid_count: "restart_count (snd (get_service_pid q g)) = restart_count g"
  by (cases q) (simp_all add: get_service_pid_def Let_def)

lemma get_process_stats_count: "restart_count (snd (get_process_stats q pid g)) = restart_count g"
  by (cases q) (simp_all add: get_process_stats_def Let_def split: exn.splits)

lemma get_system_stats_count: "restart_count (snd (get_system_stats q g)) = restart_count g"
  by (cases q) (simp_all add: get_system_stats_def Let_def)

lemma cleanup_memory_count: "restart_count (cleanup_memory a b c g) = restart_count g"
  by (simp add: cleanup_memory_def Let_def split: outcome.splits)

lemma check_service_health_count:
  "restart_count (snd (check_service_health stats_line env g)) = restart_count g
   \<or> restart_count (snd (check_service_health stats_line env g)) = restart_count g + 1"
proof -
  obtain p g1 where p: "get_service_pid (pid_query env) g = (p, g1)" by force
  then have c1: "restart_count g1 = restart_count g"
    using get_service_pid_count [of "pid_query env" g] by simp
  show ?thesis
  proof (cases p)
    case None
    with p c1 show ?thesis
      by (simp add: check_service_health_def Let_def split: outcome.splits)
  next
    case (Some pid)
    obtain s g2 where s: "get_process_stats (process_query env) pid g1 = (s, g2)" by force
    then have c2: "restart_count g2 = restart_count g"
      using get_process_stats_count [of "process_query env" pid g1] c1 by simp
    show ?thesis
    proof (cases s)
      case None
      with p Some s c2 show ?thesis by (simp add: check_service_health_def)
    next
      case (Some ps)
      obtain y g3 where y: "get_system_stats (system_query env) g2 = (y, g3)" by force
      then have c3: "restart_count g3 = restart_count g"
        using get_system_stats_count [of "system_query env" g2] c2 by simp
      from p \<open>p = Some pid\<close> s Some y c3 show ?thesis
        by (auto simp: check_service_health_def Let_def
              restart_service_count cleanup_memory_count
              split: option.splits prod.splits outcome.splits)
    qed
  qed
qed

text \<open>
  C6. What each operation of the guardian does to \<open>restart_count\<close>: \<open>restart_service\<close>
  adds one when it succeeds and nothing when it fails; \<open>reset_restart_counter\<close> sets it
  to zero; the queries, the cleanup and the log leave it alone;
  \<open>check_service_health\<close> leaves it or adds one; and a tick of the daemon starts from
  zero when the hourly reset runs and from the old count otherwise, and from there leaves
  it or adds one. Nothing but the hourly reset makes it smaller.
\<close>

theorem restart_count_mutations:
  "restart_count (snd (restart_service run now reason g)) =
     restart_count g + (if fst (restart_service run now reason g) then 1 else 0)
   \<and> restart_count (reset_restart_counter g) = 0
   \<and> restart_count (snd (get_service_pid pq g)) = restart_count g
   \<and> restart_count (snd (get_process_stats sq pid g)) = restart_count g
   \<and> restart_count (snd (get_system_stats yq g)) = restart_count g
   \<and> restart_count (cleanup_memory a b c g) = restart_count g
   \<and> restart_count (log_msg lvl message g) = restart_count g
   \<and> restart_count g \<le> restart_count (snd (check_service_health stats_line env g))
   \<and> restart_count (snd (check_service_health stats_line env g)) \<le> restart_count g + 1
   \<and> (let before = (if clock_check env - last_counter_reset > 3600 then 0 else restart_count g);
           after = restart_count (fst (snd (daemon_tick stats_line env (g, last_counter_reset))))
       in before \<le> after \<and> after \<le> before + 1)"
proof -
  have tick: "restart_count (fst (snd (daemon_tick stats_line env (g, last_counter_reset)))) =
      restart_count (snd (check_service_health stats_line env
        (if clock_check env - last_counter_reset > 3600 then reset_restart_counter g else g)))"
    by (simp add: daemon_tick_def Let_def split: prod.splits outcome.splits)
  have reset: "restart_count (reset_restart_counter g) = 0"
    by (simp add: reset_restart_counter_def)
  show ?thesis
    using check_service_health_count [of stats_line env g]
          check_service_health_count [of stats_line env "reset_restart_counter g"]
    by (auto simp: restart_service_count get_service_pid_count get_process_stats_count
          get_system_stats_count cleanup_memory_count tick reset Let_def)
qed

section \<open>The hourly reset\<close>

text \<open>
  C3, amended. At a tick where more than one hour (3600 seconds) has passed since the
  last reset, the counter is set to zero, the reset is logged, the new reset time is the
  clock read after it, and \<open>check_service_health\<close> of that same tick runs on the
  guardian as the reset left it. At a tick where one hour or less has passed, the health
  check runs on the guardian as it was and the reset time stays.
\<close>

theorem hourly_reset_before_health_check:
  "(clock_check env - last_counter_reset > 3600 \<longrightarrow>
      restart_count (reset_restart_counter g) = 0
      \<and> events (reset_restart_counter g) = events g @ [Log INFO [Lit ''Restart counter reset'']]
      \<and> daemon_tick stats_line env (g, last_counter_reset) =
          (case check_service_health stats_line env (reset_restart_counter g) of
             (Raised e, g2) \<Rightarrow> (Raised e, g2, clock_stamp env)
           | (Returned u, g2) \<Rightarrow>
               (Returned (), emit (Sleep (check_interval g2)) g2, clock_stamp env)))
   \<and> (clock_check env - last_counter_reset \<le> 3600 \<longrightarrow>
      daemon_tick stats_line env (g, last_counter_reset) =
          (case check_service_health stats_line env g of
             (Raised e, g2) \<Rightarrow> (Raised e, g2, last_counter_reset)
           | (Returned u, g2) \<Rightarrow>
               (Returned (), emit (Sleep (check_interval g2)) g2, last_counter_reset)))"
  by (simp add: daemon_tick_def reset_restart_counter_def log_msg_def Let_def)

theorem hourly_reset_before_health_check_witness:
  "restart_count (fst (snd (daemon_tick plain_stats_line (tick_at 3601) (default_guardian\<lparr>restart_count := 3\<rparr>, 0)))) = 1
   \<and> last_restart (fst (snd (daemon_tick plain_stats_line (tick_at 3601) (default_guardian\<lparr>restart_count := 3\<rparr>, 0)))) = Some 3605
   \<and> snd (snd (daemon_tick plain_stats_line (tick_at 3601) (default_guardian\<lparr>restart_count := 3\<rparr>, 0))) = 3602
   \<and> restart_count (fst (snd (daemon_tick plain_stats_line (tick_at 1800) (default_guardian\<lparr>restart_count := 3\<rparr>, 0)))) = 3
   \<and> snd (snd (daemon_tick plain_stats_line (tick_at 1800) (default_guardian\<lparr>restart_count := 3\<rparr>, 0))) = 0"
  using hourly_reset_before_health_check
          [where env = "tick_at 3601" and last_counter_reset = 0
             and g = "default_guardian\<lparr>restart_count := 3\<rparr>" and stats_line = plain_stats_line]
        hourly_reset_before_health_check
          [where env = "tick_at 1800" and last_counter_reset = 0
             and g = "default_guardian\<lparr>restart_count := 3\<rparr>" and stats_line = plain_stats_line]
  by (simp add: tick_at_def default_guardian_def check_service_health_def get_service_pid_def
        get_process_stats_def get_system_stats_def plain_stats_line_def should_restart_service_def
        restart_service_def reset_restart_counter_def stats_of_def system_of_def exited_def
        log_msg_def emit_def Let_def)

text \<open>
  C3 as stated fails when exactly one hour has passed. With three restarts counted, the
  maximum, and memory above its limit, the tick at 3600 seconds leaves the counter at
  three and the reset time where it was, and no restart is made.
\<close>

theorem hourly_reset_at_one_hour_counterexample:
  "clock_check (tick_at 3600) - 0 \<ge> 3600
   \<and> restart_count (fst (snd (daemon_tick plain_stats_line (tick_at 3600) (default_guardian\<lparr>restart_count := 3\<rparr>, 0)))) = 3
   \<and> last_restart (fst (snd (daemon_tick plain_stats_line (tick_at 3600) (default_guardian\<lparr>restart_count := 3\<rparr>, 0)))) = None
   \<and> snd (snd (daemon_tick plain_stats_line (tick_at 3600) (default_guardian\<lparr>restart_count := 3\<rparr>, 0))) = 0"
  by (simp add: daemon_tick_def tick_at_def default_guardian_def check_service_health_def get_service_pid_def
        get_process_stats_def get_system_stats_def plain_stats_line_def should_restart_service_def
        restart_service_def reset_restart_counter_def stats_of_def system_of_def exited_def
        log_msg_def emit_def Let_def)

section \<open>Loading the configuration\<close>

lemma update_items_lookup:
  "update_items kvs d k = (case map_of (rev kvs) k of Some v \<Rightarrow> Some v | None \<Rightarrow> d k)"
proof (induction kvs arbitrary: d)
  case Nil
  show ?case by simp
next
  case (Cons kv kvs)
  obtain k' v' where kv: "kv = (k', v')" by (cases kv)
  show ?case
    by (simp add: kv Cons.IH map_add_def split: option.splits)
qed

text \<open>
  C8. \<open>load_config\<close> returns whatever the file is. A missing file gives the default
  configuration and logs nothing; a file that cannot be opened or whose parse raises gives
  the default configuration whole and logs the error; a file that parses to an object
  gives the defaults updated with its items, so that a field the file omits has its
  default value and a field the file gives has the file's value (the last one, should
  the list repeat a key).
\<close>

theorem load_config_never_fatal:
  "(\<exists>d logged. load_config config_file = Returned (d, logged))
   \<and> load_config Missing = Returned (default_config, [])
   \<and> load_config (ParseRaises e) =
        Returned (default_config,
                  [Log INFO [Lit ''Error loading config: '', Lit (exn_str e),
                             Lit '', using defaults'']])
   \<and> load_config (OpenRaises e) =
        Returned (default_config,
                  [Log INFO [Lit ''Error loading config: '', Lit (exn_str e),
                             Lit '', using defaults'']])
   \<and> load_config (Parsed (JObject kvs)) = Returned (update_items kvs default_config, [])
   \<and> (k \<notin> fst ` set kvs \<longrightarrow> update_items kvs default_config k = default_config k)
   \<and> (k \<in> fst ` set kvs \<longrightarrow> update_items kvs default_config k = map_of (rev kvs) k)"
proof -
  have returns: "\<exists>d logged. load_config config_file = Returned (d, logged)"
    by (simp add: load_config_def split: prod.splits option.splits)
  have absent: "k \<notin> fst ` set kvs \<longrightarrow> update_items kvs default_config k = default_config k"
    using map_of_eq_None_iff [of "rev kvs" k]
    by (auto simp: update_items_lookup split: option.splits)
  have present: "k \<in> fst ` set kvs \<longrightarrow> update_items kvs default_config k = map_of (rev kvs) k"
    using map_of_eq_None_iff [of "rev kvs" k]
    by (auto simp: update_items_lookup split: option.splits)
  show ?thesis
    using returns absent present
    by (simp add: load_config_def load_config_body_def)
qed

theorem load_config_never_fatal_witness:
  "(case load_config (Parsed (JObject [(''memory_limit_mb'', JInt 256)])) of
      Returned (d, logged) \<Rightarrow>
        d ''memory_limit_mb'' = Some (JInt 256) \<and> d ''cpu_limit_percent'' = Some (JInt 80)
        \<and> d ''enable_auto_restart'' = Some (JBool True) \<and> logged = []
    | Raised e \<Rightarrow> False)"
  using load_config_never_fatal
          [where config_file = "Parsed (JObject [(''memory_limit_mb'', JInt 256)])"
             and kvs = "[(''memory_limit_mb'', JInt 256)]" and k = "''cpu_limit_percent''"]
        load_config_never_fatal
          [where config_file = "Parsed (JObject [(''memory_limit_mb'', JInt 256)])"
             and kvs = "[(''memory_limit_mb'', JInt 256)]" and k = "''memory_limit_mb''"]
  by (simp add: default_config_def)

section \<open>Running a command\<close>

text \<open>
  C9. \<open>execute_command_internal\<close> and \<open>execute_command\<close> return for every command
  string, and what they return is a dict of \<open>success\<close>, \<open>stdout\<close>, \<open>stderr\<close> and
  \<open>returncode\<close>. When the command runs into the timeout the dict is failure, empty
  output, \<open>Timeout\<close> and \<open>-1\<close>; when running it raises anything else the dict is
  failure, empty output, the text of the exception and \<open>-1\<close>; when it completes the dict
  carries its exit status and its stripped output. \<open>execute_command\<close> is
  \<open>execute_command_internal\<close> unless the cache is asked for and holds the command.
\<close>

theorem execute_command_never_raises:
  "(\<exists>r. execute_command_internal run command_str use_sudo = Returned r)
   \<and> (\<exists>r. fst (execute_command run cache command_str use_sudo use_cache) = Returned r)
   \<and> (\<forall>m. run (if use_sudo then ''sudo'' # str_split command_str else str_split command_str)
            = Raised (TimeoutExpired m) \<longrightarrow>
        execute_command_internal run command_str use_sudo =
          Returned \<lparr>returncode = - 1, stdout = [], stderr = ''Timeout'', success = False\<rparr>)
   \<and> (\<forall>e. run (if use_sudo then ''sudo'' # str_split command_str else str_split command_str)
            = Raised e \<and> (\<forall>m. e \<noteq> TimeoutExpired m) \<longrightarrow>
        execute_command_internal run command_str use_sudo =
          Returned \<lparr>returncode = - 1, stdout = [], stderr = exn_str e, success = False\<rparr>)
   \<and> (\<forall>p. run (if use_sudo then ''sudo'' # str_split command_str else str_split command_str)
            = Returned p \<longrightarrow>
        execute_command_internal run command_str use_sudo =
          Returned \<lparr>returncode = returncode p, stdout = str_strip (stdout p),
                    stderr = str_strip (stderr p), success = (returncode p = 0)\<rparr>)
   \<and> (\<not> use_cache \<or> map_of cache (command_str, use_sudo) = None \<longrightarrow>
        fst (execute_command run cache command_str use_sudo use_cache) =
          execute_command_internal run command_str use_sudo)"
proof (cases use_sudo)
  case True
  show ?thesis
    by (cases "run (''sudo'' # str_split command_str)")
       (auto simp: True execute_command_internal_def execute_command_def
          get_cached_command_result_def Let_def split: exn.splits option.splits)
next
  case False
  show ?thesis
    by (cases "run (str_split command_str)")
       (auto simp: False execute_command_internal_def execute_command_def
          get_cached_command_result_def Let_def split: exn.splits option.splits)
qed


theorem execute_command_never_raises_witness:
  "execute_command_internal small_host ''systemctl  is-active frps'' True =
     Returned \<lparr>returncode = 0, stdout = ''active'', stderr = [], success = True\<rparr>
   \<and> fst (execute_command small_host [] ''sleep 60'' True True) =
     Returned \<lparr>returncode = - 1, stdout = [], stderr = ''Timeout'', success = False\<rparr>
   \<and> fst (execute_command small_host [] ''frps'' False False) =
     Returned \<lparr>returncode = - 1, stdout = [], stderr = ''No such file or directory'',
               success = False\<rparr>"
  using execute_command_never_raises
          [where run = small_host and command_str = "''systemctl  is-active frps''"
             and use_sudo = True and cache = "[]" and use_cache = False]
        execute_command_never_raises
          [where run = small_host and command_str = "''sleep 60''"
             and use_sudo = True and cache = "[]" and use_cache = True]
        execute_command_never_raises
          [where run = small_host and command_str = "''frps''"
             and use_sudo = False and cache = "[]" and use_cache = False]
  by (simp add: small_host_def str_split_def str_strip_def isspace_def)

section \<open>The status cache\<close>

text \<open>
  C7, amended. While the cache holds a value that is not \<open>None\<close> and no more than
  \<open>ttl\<close> seconds have passed since it was stored, two calls in a row return that same
  value, whatever their fetch functions would return, and leave the cache and the world
  of the fetch functions as they were. When the cache holds \<open>None\<close>, or once more than
  \<open>ttl\<close> seconds have passed, a call runs the fetch function, stores what it returns
  with the time of the call, and returns it.
\<close>

theorem get_cached_data_round_trip:
  fixes c :: "'v cache_dict" and f1 f2 f3 :: "'w \<Rightarrow> 'v option \<times> 'w"
  shows
  "(data c = Some v \<and> now1 - timestamp c \<le> ttl c \<and> now2 - timestamp c \<le> ttl c \<longrightarrow>
      get_cached_data c now1 f1 w = (Some v, c, w)
      \<and> get_cached_data (fst (snd (get_cached_data c now1 f1 w))) now2 f2
           (snd (snd (get_cached_data c now1 f1 w))) = (Some v, c, w))
   \<and> (data c = None \<or> now3 - timestamp c > ttl c \<longrightarrow>
      get_cached_data c now3 f3 w =
        (fst (f3 w), c\<lparr>data := fst (f3 w), timestamp := now3\<rparr>, snd (f3 w)))"
  by (auto simp: get_cached_data_def split: prod.splits)

theorem get_cached_data_round_trip_witness:
  "get_cached_data status_cache 100 counting_fetch 0
     = (Some 0, \<lparr>data = Some 0, timestamp = 100, ttl = 5\<rparr>, 1)
   \<and> get_cached_data \<lparr>data = Some 0, timestamp = 100, ttl = 5\<rparr> 103 counting_fetch (1::nat)
     = (Some 0, \<lparr>data = Some 0, timestamp = 100, ttl = 5\<rparr>, 1)
   \<and> get_cached_data \<lparr>data = Some 0, timestamp = 100, ttl = 5\<rparr> 105 counting_fetch (1::nat)
     = (Some 0, \<lparr>data = Some 0, timestamp = 100, ttl = 5\<rparr>, 1)
   \<and> get_cached_data \<lparr>data = Some 0, timestamp = 100, ttl = 5\<rparr> 106 counting_fetch (1::nat)
     = (Some 1, \<lparr>data = Some 1, timestamp = 106, ttl = 5\<rparr>, 2)
   \<and> get_cached_data \<lparr>data = None, timestamp = 100, ttl = 5\<rparr> 101 counting_fetch (1::nat)
     = (Some 1, \<lparr>data = Some 1, timestamp = 101, ttl = 5\<rparr>, 2)"
  using get_cached_data_round_trip
          [where c = "status_cache :: nat cache_dict" and v = 0 and ?now1.0 = 0 and ?now2.0 = 0
             and ?now3.0 = 100 and ?f1.0 = counting_fetch and ?f2.0 = counting_fetch
             and ?f3.0 = counting_fetch and w = 0]
        get_cached_data_round_trip
          [where c = "\<lparr>data = Some (0::nat), timestamp = 100, ttl = 5\<rparr>" and v = 0
             and ?now1.0 = 103 and ?now2.0 = 105 and ?now3.0 = 106 and ?f1.0 = counting_fetch
             and ?f2.0 = counting_fetch and ?f3.0 = counting_fetch and w = "1::nat"]
        get_cached_data_round_trip
          [where c = "\<lparr>data = (None :: nat option), timestamp = 100, ttl = 5\<rparr>" and v = 0
             and ?now1.0 = 101 and ?now2.0 = 101 and ?now3.0 = 101 and ?f1.0 = counting_fetch
             and ?f2.0 = counting_fetch and ?f3.0 = counting_fetch and w = "1::nat"]
  by (simp add: status_cache_def counting_fetch_def get_cached_data_def)

text \<open>
  C7 as stated fails for a fetch function that returns \<open>None\<close>: the value is stored,
  but the next call takes it for an empty cache. Of two calls one second apart, well
  inside the five seconds of the status cache, the first returns \<open>None\<close> and the
  second fetches again and returns 1.
\<close>

theorem get_cached_data_none_counterexample:
  "get_cached_data status_cache 100 none_first_fetch 0
     = (None, \<lparr>data = None, timestamp = 100, ttl = 5\<rparr>, 1)
   \<and> get_cached_data \<lparr>data = None, timestamp = 100, ttl = 5\<rparr> 101 none_first_fetch 1
     = (Some 1, \<lparr>data = Some 1, timestamp = 101, ttl = 5\<rparr>, 2)"
  by (simp add: status_cache_def none_first_fetch_def get_cached_data_def)

section \<open>The caching decorator\<close>

lemma fold_del_key: "fold del_key ks cache = filter (\<lambda>entry. fst entry \<notin> set ks) cache"
  by (induction ks arbitrary: cache) (auto simp: del_key_def intro: filter_cong)

lemma distinct_keys_by_age:
  "distinct (map fst cache) \<Longrightarrow> distinct (keys_by_age cache)"
  by (simp add: keys_by_age_def distinct_map)

lemma set_keys_by_age: "set (keys_by_age cache) = fst ` set cache"
  by (simp add: keys_by_age_def)

lemma length_keys_by_age: "length (keys_by_age cache) = length cache"
  by (simp add: keys_by_age_def)

lemma length_without_keys:
  assumes "distinct (map fst cache)" and "distinct ks" and "set ks \<subseteq> fst ` set cache"
  shows "length (filter (\<lambda>entry. fst entry \<notin> set ks) cache) = length cache - length ks"
proof -
  have "length (filter (\<lambda>entry. fst entry \<notin> set ks) cache)
          = length (filter (\<lambda>k. k \<notin> set ks) (map fst cache))"
    by (simp add: filter_map comp_def)
  also have "\<dots> = card ({k. k \<notin> set ks} \<inter> set (map fst cache))"
    using assms(1) by (rule distinct_length_filter)
  also have "{k. k \<notin> set ks} \<inter> set (map fst cache) = set (map fst cache) - set ks"
    by auto
  also have "card (set (map fst cache) - set ks) = card (set (map fst cache)) - card (set ks)"
    using assms(3) by (intro card_Diff_subset) auto
  also have "\<dots> = length cache - length ks"
    using assms(1,2) by (simp add: distinct_card del: set_map)
  finally show ?thesis .
qed

lemma length_evicted:
  assumes "distinct (map fst cache)"
  shows "length (fold del_key (take n (keys_by_age cache)) cache) = length cache - n"
proof -
  have "length (fold del_key (take n (keys_by_age cache)) cache)
          = length cache - length (take n (keys_by_age cache))"
    unfolding fold_del_key
    using assms
    by (intro length_without_keys)
       (auto simp: distinct_keys_by_age set_keys_by_age [symmetric] dest: in_set_takeD)
  then show ?thesis
    by (simp add: length_keys_by_age min_def)
qed

lemma distinct_del_key: "distinct (map fst cache) \<Longrightarrow> distinct (map fst (del_key key cache))"
  by (simp add: del_key_def distinct_map_filter)

lemma key_not_in_del_key: "key \<notin> fst ` set (del_key key cache)"
  by (auto simp: del_key_def)

lemma length_del_key: "length (del_key key cache) \<le> length cache"
  by (simp add: del_key_def)

lemma del_key_absent: "map_of cache key = None \<Longrightarrow> del_key key cache = cache"
  by (auto simp: del_key_def map_of_eq_None_iff filter_id_conv)

text \<open>The wrapper on a miss (no entry, or an expired one) whose function returns.\<close>

lemma wrapper_miss:
  assumes "\<forall>result stored. map_of cache key = Some (result, stored) \<longrightarrow> lifetime \<le> current_time - stored"
  shows "wrapper maxsize lifetime cache key current_time (Returned r) =
           (Returned r,
            (let cache2 = del_key key cache @ [(key, r, current_time)]
             in if length cache2 > maxsize
                then fold del_key (take (length cache2 - maxsize + 1) (keys_by_age cache2)) cache2
                else cache2))"
proof (cases "map_of cache key")
  case None
  then show ?thesis by (simp add: wrapper_def del_key_absent Let_def)
next
  case (Some entry)
  obtain result stored where "entry = (result, stored)" by (cases entry)
  with Some assms show ?thesis by (simp add: wrapper_def Let_def)
qed

lemma wrapper_keeps_bound:
  assumes "distinct (map fst cache)" and "length cache \<le> maxsize"
  shows "distinct (map fst (snd (wrapper maxsize lifetime cache key current_time computed)))
         \<and> length (snd (wrapper maxsize lifetime cache key current_time computed)) \<le> maxsize"
proof -
  let ?c1 = "del_key key cache"
  have d1: "distinct (map fst ?c1)" using assms(1) by (rule distinct_del_key)
  have l1: "length ?c1 \<le> maxsize" using assms(2) length_del_key [of key cache] by simp
  show ?thesis
  proof (cases "\<exists>result stored. map_of cache key = Some (result, stored) \<and> current_time - stored < lifetime")
    case True
    then show ?thesis using assms by (auto simp: wrapper_def)
  next
    case False
    then have miss: "\<forall>result stored. map_of cache key = Some (result, stored) \<longrightarrow> lifetime \<le> current_time - stored"
      by auto
    show ?thesis
    proof (cases computed)
      case (Raised e)
      have "snd (wrapper maxsize lifetime cache key current_time (Raised e)) = ?c1"
      proof (cases "map_of cache key")
        case None
        then show ?thesis by (simp add: wrapper_def del_key_absent)
      next
        case (Some entry)
        obtain result stored where "entry = (result, stored)" by (cases entry)
        with Some miss show ?thesis by (simp add: wrapper_def)
      qed
      with Raised d1 l1 show ?thesis by simp
    next
      case (Returned r)
      let ?c2 = "?c1 @ [(key, r, current_time)]"
      have d2: "distinct (map fst ?c2)"
        using d1 key_not_in_del_key [of key cache] by simp
      have "distinct (map fst (fold del_key ks ?c2))" for ks
        unfolding fold_del_key using d2 by (rule distinct_map_filter)
      moreover have "length ?c2 > maxsize \<Longrightarrow>
          length (fold del_key (take (length ?c2 - maxsize + 1) (keys_by_age ?c2)) ?c2) \<le> maxsize"
        using length_evicted [OF d2, of "length ?c2 - maxsize + 1"] l1 by simp
      ultimately show ?thesis
        using d2 l1 by (simp add: Returned wrapper_miss [OF miss] Let_def)
    qed
  qed
qed

lemma run_calls_keeps_bound:
  "distinct (map fst cache) \<Longrightarrow> length cache \<le> maxsize \<Longrightarrow>
   distinct (map fst (run_calls maxsize lifetime calls cache))
   \<and> length (run_calls maxsize lifetime calls cache) \<le> maxsize"
proof (induction calls arbitrary: cache)
  case Nil
  then show ?case by simp
next
  case (Cons call calls)
  obtain key current_time computed where call: "call = (key, current_time, computed)"
    by (cases call)
  show ?case
    using Cons.IH wrapper_keeps_bound [OF Cons.prems, of lifetime key current_time computed]
    by (simp add: call)
qed


lemma evicted_are_oldest:
  assumes keys: "distinct (map fst cache)"
    and e: "e \<in> set cache" "e \<notin> set (fold del_key (take n (keys_by_age cache)) cache)"
    and s: "s \<in> set (fold del_key (take n (keys_by_age cache)) cache)"
  shows "snd (snd e) \<le> snd (snd s)"
proof -
  let ?xs = "sort_key (\<lambda>entry. snd (snd entry)) cache"
  have ks: "take n (keys_by_age cache) = map fst (take n ?xs)"
    by (simp add: keys_by_age_def take_map)
  have inj: "inj_on fst (set cache)"
    using keys by (simp add: distinct_map)
  have "fst e \<in> fst ` set (take n ?xs)"
    using e by (auto simp: fold_del_key ks)
  then obtain e' where e': "e' \<in> set (take n ?xs)" "fst e' = fst e"
    by auto
  then have "e' \<in> set cache"
    by (auto dest: in_set_takeD)
  with inj e(1) e'(2) have "e' = e"
    by (auto dest: inj_onD)
  with e'(1) have e_old: "e \<in> set (take n ?xs)"
    by simp
  have "s \<in> set cache" and "fst s \<notin> fst ` set (take n ?xs)"
    using s by (auto simp: fold_del_key ks)
  then have "s \<in> set ?xs" and "s \<notin> set (take n ?xs)"
    by auto
  then have s_new: "s \<in> set (drop n ?xs)"
    using set_append [of "take n ?xs" "drop n ?xs"] by (simp del: set_append)
  have "sorted (map (\<lambda>entry. snd (snd entry)) (take n ?xs)
                @ map (\<lambda>entry. snd (snd entry)) (drop n ?xs))"
    by (simp only: map_append [symmetric] append_take_drop_id sorted_sort_key)
  then have "\<forall>a \<in> set (take n ?xs). \<forall>b \<in> set (drop n ?xs). snd (snd a) \<le> snd (snd b)"
    unfolding sorted_append by simp
  with e_old s_new show ?thesis
    by blast
qed

text \<open>
  C10, amended. After every sequence of calls of a wrapped function the cache holds at
  most \<open>maxsize\<close> entries, and each call keeps that bound and the keys distinct. When a
  call stores an entry and the cache then has more than \<open>maxsize\<close> entries, the keys
  \<open>sorted(...)[:len(cache) - maxsize + 1]\<close> are deleted, and every entry deleted was
  stored no later than every entry kept. With \<open>maxsize\<close> at least 1 these are exactly
  \<open>len(cache) - maxsize + 1\<close> entries, one more than the bound asks for, and
  \<open>maxsize - 1\<close> entries are left; with \<open>maxsize\<close> 0 the slice is the whole cache and
  nothing is left. \<open>cache_clear\<close> empties the cache.
\<close>

theorem lightweight_cache_bound:
  fixes cache :: "('k \<times> 'v \<times> real) list" and calls :: "('k \<times> real \<times> 'v outcome) list"
  shows
  "length (run_calls maxsize lifetime calls []) \<le> maxsize
   \<and> (distinct (map fst cache) \<and> length cache \<le> maxsize \<longrightarrow>
        length (snd (wrapper maxsize lifetime cache key current_time computed)) \<le> maxsize
        \<and> distinct (map fst (snd (wrapper maxsize lifetime cache key current_time computed))))
   \<and> (let cache2 = del_key key cache @ [(key, r, current_time)];
           after = snd (wrapper maxsize lifetime cache key current_time (Returned r));
           oldest_keys = take (length cache2 - maxsize + 1) (keys_by_age cache2)
       in distinct (map fst cache)
          \<and> (\<forall>result stored. map_of cache key = Some (result, stored) \<longrightarrow>
                 lifetime \<le> current_time - stored)
          \<and> maxsize < length cache2 \<longrightarrow>
          after = fold del_key oldest_keys cache2
          \<and> (1 \<le> maxsize \<longrightarrow>
                int (length oldest_keys) = int (length cache2) - int maxsize + 1
                \<and> int (length after) = int maxsize - 1)
          \<and> (maxsize = 0 \<longrightarrow> length oldest_keys = length cache2 \<and> after = [])
          \<and> (\<forall>e \<in> set cache2. \<forall>s \<in> set after. e \<notin> set after \<longrightarrow> snd (snd e) \<le> snd (snd s)))
   \<and> cache_clear cache = []"
proof -
  have calls: "length (run_calls maxsize lifetime calls []) \<le> maxsize"
    using run_calls_keeps_bound [of "[]" maxsize lifetime calls] by simp
  have step: "distinct (map fst cache) \<and> length cache \<le> maxsize \<longrightarrow>
        length (snd (wrapper maxsize lifetime cache key current_time computed)) \<le> maxsize
        \<and> distinct (map fst (snd (wrapper maxsize lifetime cache key current_time computed)))"
    using wrapper_keeps_bound [of cache maxsize lifetime key current_time computed] by simp
  let ?c2 = "del_key key cache @ [(key, r, current_time)]"
  let ?after = "snd (wrapper maxsize lifetime cache key current_time (Returned r))"
  let ?ks = "take (length ?c2 - maxsize + 1) (keys_by_age ?c2)"
  have overflow: "?after = fold del_key ?ks ?c2
          \<and> (1 \<le> maxsize \<longrightarrow>
                int (length ?ks) = int (length ?c2) - int maxsize + 1
                \<and> int (length ?after) = int maxsize - 1)
          \<and> (maxsize = 0 \<longrightarrow> length ?ks = length ?c2 \<and> ?after = [])
          \<and> (\<forall>e \<in> set ?c2. \<forall>s \<in> set ?after. e \<notin> set ?after \<longrightarrow> snd (snd e) \<le> snd (snd s))"
    if keys: "distinct (map fst cache)"
      and miss: "\<forall>result stored. map_of cache key = Some (result, stored) \<longrightarrow>
                   lifetime \<le> current_time - stored"
      and over: "maxsize < length ?c2"
  proof -
    have d2: "distinct (map fst ?c2)"
      using distinct_del_key [OF keys, of key] key_not_in_del_key [of key cache] by simp
    have eq: "?after = fold del_key ?ks ?c2"
      using over by (simp add: wrapper_miss [OF miss] Let_def)
    define total where "total = length ?c2"
    have over': "maxsize < total"
      using over by (simp only: total_def)
    have len_after: "length ?after = total - (total - maxsize + 1)"
      using length_evicted [OF d2, of "length ?c2 - maxsize + 1"] by (simp only: eq total_def)
    have len_ks: "length ?ks = min (total - maxsize + 1) total"
      by (simp only: length_take length_keys_by_age min.commute total_def)
    have positive: "1 \<le> maxsize \<longrightarrow>
                int (length ?ks) = int total - int maxsize + 1
                \<and> int (length ?after) = int maxsize - 1"
      using over' by (simp only: len_after len_ks) (auto simp: min_def)
    have zero: "maxsize = 0 \<longrightarrow> length ?ks = total \<and> length ?after = 0"
      using over' by (simp only: len_after len_ks) (auto simp: min_def)
    note positive = positive [unfolded total_def]
    have zero: "maxsize = 0 \<longrightarrow> length ?ks = length ?c2 \<and> ?after = []"
      using zero by (simp only: total_def length_0_conv)
    have old: "\<forall>e \<in> set ?c2. \<forall>s \<in> set ?after. e \<notin> set ?after \<longrightarrow> snd (snd e) \<le> snd (snd s)"
      unfolding eq using evicted_are_oldest [OF d2] by blast
    from eq positive zero old show ?thesis by blast
  qed
  have clear: "cache_clear cache = []"
    by (simp add: cache_clear_def)
  show ?thesis
    unfolding Let_def using calls step overflow clear by blast
qed

theorem lightweight_cache_bound_witness:
  "snd (wrapper 2 300 [(''a'', 1::nat, 10), (''b'', 2, 20)] ''c'' 30 (Returned 3)) = [(''c'', 3, 30)]
   \<and> length (run_calls 2 300
               [(''a'', 10, Returned (1::nat)), (''b'', 20, Returned 2), (''c'', 30, Returned 3)] [])
       \<le> 2
   \<and> snd (wrapper 0 300 [] ''a'' 10 (Returned (1::nat))) = []
   \<and> length (run_calls 0 300 [(''a'', 10, Returned (1::nat)), (''b'', 20, Returned 2)] []) \<le> 0"
  using lightweight_cache_bound
          [where maxsize = 2 and lifetime = 300 and cache = "[(''a'', 1::nat, 10), (''b'', 2, 20)]"
             and key = "''c''" and current_time = 30 and r = 3 and computed = "Returned 3"
             and calls = "[(''a'', 10, Returned (1::nat)), (''b'', 20, Returned 2),
                           (''c'', 30, Returned 3)]"]
        lightweight_cache_bound
          [where maxsize = 0 and lifetime = 300 and cache = "[] :: (string \<times> nat \<times> real) list"
             and key = "''a''" and current_time = 10 and r = 1 and computed = "Returned 1"
             and calls = "[(''a'', 10, Returned (1::nat)), (''b'', 20, Returned 2)]"]
  by (simp add: wrapper_def del_key_def keys_by_age_def Let_def)

text \<open>
  C10 as stated describes eviction until the bound holds. With \<open>maxsize\<close> 2 and two
  entries cached, storing a third deletes the two oldest and leaves one entry, where
  deleting the oldest alone restores the bound, as \<open>evict_until_bound\<close> does; with
  \<open>maxsize\<close> 1 the second store deletes both entries, the one just stored included.
\<close>

theorem lightweight_cache_evicts_one_more_counterexample:
  "snd (wrapper 2 300 [(''a'', 1::nat, 10), (''b'', 2, 20)] ''c'' 30 (Returned 3)) = [(''c'', 3, 30)]
   \<and> evict_until_bound 2 ([(''a'', 1::nat, 10), (''b'', 2, 20)] @ [(''c'', 3, 30)])
       = [(''b'', 2, 20), (''c'', 3, 30)]
   \<and> snd (wrapper 1 300 [] ''a'' 10 (Returned (1::nat))) = [(''a'', 1, 10)]
   \<and> snd (wrapper 1 300 [(''a'', 1::nat, 10)] ''b'' 20 (Returned 2)) = []"
  by (simp add: wrapper_def evict_until_bound_def del_key_def keys_by_age_def Let_def)

end
